theory Spec2Isabelle
  imports Complex_Main
begin

section \<open>RpgTracker: quest rewards, inventory and combat\<close>

text \<open>
  A shallow embedding of the reward logic of \<^verbatim>\<open>src/contexts/GameContext.tsx\<close>, of
  \<^verbatim>\<open>updateUser\<close> in \<^verbatim>\<open>src/contexts/AuthContext.tsx\<close> and of the combat handlers of
  \<^verbatim>\<open>src/pages/Combat.tsx\<close>.

  Numbers are the integers the database columns hold (\<^verbatim>\<open>integer\<close> columns and the
  integer defaults of the \<^verbatim>\<open>jsonb\<close> stats), so they are modelled as \<^typ>\<open>int\<close>; the one
  place where the source leaves the integers (\<^verbatim>\<open>strength * 1.5\<close>, \<^verbatim>\<open>defense / 2\<close>) is
  computed in \<^typ>\<open>rat\<close> and floored, as \<^verbatim>\<open>Math.floor\<close> does. React state is passed
  explicitly; the remote store and \<^verbatim>\<open>localStorage\<close> are part of the state, and the
  outcome of each call to them (success or a thrown error) is an input.
\<close>

subsection \<open>Data model\<close>

text \<open>
  Modelled from the spec: the type declarations of \<^verbatim>\<open>src/types\<close> (\<^verbatim>\<open>User\<close>,
  \<^verbatim>\<open>Quest\<close>, \<^verbatim>\<open>Item\<close>, \<^verbatim>\<open>Monster\<close>, \<^verbatim>\<open>Skill\<close>) are not among the sources. The
  records carry the fields of the specification's data model, which are the fields the
  code reads and writes and the columns of the migrations. An optional field
  \<^verbatim>\<open>f?: T\<close> is a \<^typ>\<open>'a option\<close>.
\<close>

record stats =
  strength :: int
  dexterity :: int
  intelligence :: int
  availablePoints :: int

record vitals =
  currentHP :: int
  maxHP :: int
  currentMP :: int
  maxMP :: int

record appearance =
  face :: int
  hairstyle :: int
  hairColor :: string

record character =
  id_character :: string
  name :: string
  level :: int
  experience :: int
  experienceToNext :: int
  class_character :: string
  appearance :: appearance
  stats :: stats
  vitals :: vitals
  gold :: int
  skillPoints :: int

record user =
  id_user :: string
  email :: string
  displayName :: string
  registrationDate :: string
  character :: character

record item =
  id_item :: string
  name :: string
  value_item :: int
  quantity :: "int option"
  isEquipped :: "bool option"

record rewards =
  experience :: int
  gold :: int
  skillPoints :: "int option"
  items :: "item list option"

record quest =
  id_quest :: string
  title :: string
  description :: string
  type_quest :: string
  difficulty :: string
  rewards :: rewards
  isCompleted :: bool
  isActive :: bool
  progress :: int
  maxProgress :: int
  createdAt :: string
  completedAt :: "string option"
  dueDate :: "string option"

subsection \<open>JavaScript idioms\<close>

text \<open>\<^verbatim>\<open>x || d\<close> on an optional number: \<^verbatim>\<open>undefined\<close> and \<^verbatim>\<open>0\<close> are falsy.\<close>

definition or_else :: "int option \<Rightarrow> int \<Rightarrow> int" where
  "or_else x d = (case x of None \<Rightarrow> d | Some n \<Rightarrow> if n = 0 then d else n)"

text \<open>The truth value of an optional number in a condition.\<close>

definition truthy :: "int option \<Rightarrow> bool" where
  "truthy x = (case x of None \<Rightarrow> False | Some n \<Rightarrow> n \<noteq> 0)"

text \<open>\<^verbatim>\<open>Array.prototype.findIndex\<close>: the first index whose element satisfies the test;
  the source's \<^verbatim>\<open>-1\<close> is \<^const>\<open>None\<close>.\<close>

fun findIndex :: "('a \<Rightarrow> bool) \<Rightarrow> 'a list \<Rightarrow> nat option" where
  "findIndex P [] = None"
| "findIndex P (x # xs) =
     (if P x then Some 0 else (case findIndex P xs of None \<Rightarrow> None | Some k \<Rightarrow> Some (Suc k)))"

subsection \<open>The stores and the session state\<close>

datatype store_error = StoreError | StorageError | TypeError

text \<open>
  The outcome of the calls that leave the program: the reply of the \<^verbatim>\<open>quests\<close> table
  to the update and to the select that \<^verbatim>\<open>questAPI\<close> sends (the row or rows, or an
  error), and whether \<^verbatim>\<open>userAPI.updateCharacter\<close> and \<^verbatim>\<open>localStorage.setItem\<close> throw.
\<close>

record env =
  update_quests :: "string \<Rightarrow> store_error + quest"
  select_quests :: "string \<Rightarrow> store_error + quest list"
  updateCharacter_throws :: bool
  setItem_throws :: bool

text \<open>
  The state of both providers (\<^verbatim>\<open>user\<close> of AuthContext, \<^verbatim>\<open>quests\<close> and
  \<^verbatim>\<open>inventory\<close> of GameContext), the \<^verbatim>\<open>characters\<close> row of the signed-in user and
  the content of \<^verbatim>\<open>localStorage\<close>. \<open>effect_due\<close> holds when \<^verbatim>\<open>setUser\<close> has replaced the
  user and the effect of GameProvider that depends on \<^verbatim>\<open>[user]\<close> has not run yet.
\<close>

record game =
  user :: "user option"
  quests :: "quest list"
  inventory :: "item list"
  characters_row :: character
  localStorage :: "string \<rightharpoonup> item list"
  effect_due :: bool

text \<open>A call returns \<^const>\<open>None\<close> when it completes and the error when it throws,
  with the state it has reached.\<close>

type_synonym outcome = "store_error option \<times> game"

subsection \<open>questAPI\<close>

text \<open>
  The member \<^verbatim>\<open>raw\<close> of the client that \<^verbatim>\<open>createClient\<close> of
  \<^verbatim>\<open>@supabase/supabase-js\<close> returns (\<^verbatim>\<open>lib/supabase.ts\<close>). That client has the members
  \<^verbatim>\<open>from\<close>, \<^verbatim>\<open>rpc\<close>, \<^verbatim>\<open>auth\<close>, \<^verbatim>\<open>storage\<close>, \<^verbatim>\<open>functions\<close>, \<^verbatim>\<open>realtime\<close> and
  \<^verbatim>\<open>channel\<close>, and no member \<^verbatim>\<open>raw\<close>: \<^verbatim>\<open>supabase.raw\<close> is \<^verbatim>\<open>undefined\<close>.
\<close>

definition supabase_raw :: "(string \<Rightarrow> string) option" where
  "supabase_raw = None"

text \<open>
  \<^verbatim>\<open>questAPI.completeQuest(questId)\<close>. The argument of \<^verbatim>\<open>update\<close> is built first, and
  with it \<^verbatim>\<open>supabase.raw('max_progress')\<close> is called: calling \<^verbatim>\<open>undefined\<close> throws a
  \<^verbatim>\<open>TypeError\<close> before any request is sent. Only with a \<^verbatim>\<open>raw\<close> would the update be
  sent and its reply be returned or thrown.
\<close>

definition questAPI_completeQuest :: "env \<Rightarrow> string \<Rightarrow> store_error + quest" where
  "questAPI_completeQuest e questId =
     (case supabase_raw of
        None \<Rightarrow> Inl TypeError
      | Some raw \<Rightarrow> update_quests e questId)"

text \<open>\<^verbatim>\<open>questAPI.getUserQuests(userId)\<close>: the rows of the select, or its error thrown.\<close>

definition questAPI_getUserQuests :: "env \<Rightarrow> string \<Rightarrow> store_error + quest list" where
  "questAPI_getUserQuests e userId = select_quests e userId"

subsection \<open>AuthContext: updateUser\<close>

text \<open>
  \<^verbatim>\<open>updateUser({ character: c })\<close>, the only form GameContext uses. Every field of
  the character is defined, so the row is written with all of them except the id; the
  local user is replaced by a new object after the write has succeeded, which makes the
  \<^verbatim>\<open>[user]\<close> effect of GameProvider due.
\<close>

definition updateUser :: "env \<Rightarrow> character \<Rightarrow> game \<Rightarrow> outcome" where
  "updateUser e c s =
     (case user s of
        None \<Rightarrow> (None, s)
      | Some u \<Rightarrow>
          if updateCharacter_throws e then (Some StoreError, s)
          else (None, s\<lparr>characters_row := c\<lparr>id_character := id_character (characters_row s)\<rparr>,
                          user := Some (u\<lparr>character := c\<rparr>),
                          effect_due := True\<rparr>))"

subsection \<open>GameContext: loading\<close>

text \<open>
  \<^verbatim>\<open>loadGameData\<close>: the quests are read from the store; after that the inventory is
  replaced by the one saved in \<^verbatim>\<open>localStorage\<close>, if one is saved. An error of the read
  is caught and logged, and nothing is replaced. (Achievements, friends and the loading
  flag are not modelled.)
\<close>

definition loadGameData :: "env \<Rightarrow> game \<Rightarrow> game" where
  "loadGameData e s =
     (case user s of
        None \<Rightarrow> s
      | Some u \<Rightarrow>
          (case questAPI_getUserQuests e (id_user u) of
             Inl err \<Rightarrow> s
           | Inr userQuests \<Rightarrow>
               (let s1 = s\<lparr>quests := userQuests\<rparr>
                in case localStorage s (''inventory_'' @ id_user u) of
                     None \<Rightarrow> s1
                   | Some savedInventory \<Rightarrow> s1\<lparr>inventory := savedInventory\<rparr>)))"

text \<open>
  The effect \<^verbatim>\<open>useEffect(() => { if (user) loadGameData(); else ... }, [user])\<close>. It runs
  after the render that follows \<^verbatim>\<open>setUser\<close>, and \<^verbatim>\<open>loadGameData\<close> continues after a
  round trip to the store: a call that was running when the user was replaced has
  returned or thrown by then.
\<close>

definition runEffect :: "env \<Rightarrow> game \<Rightarrow> game" where
  "runEffect e s =
     (if effect_due s
      then (case user s of
              None \<Rightarrow> s\<lparr>quests := [], inventory := [], effect_due := False\<rparr>
            | Some u \<Rightarrow> loadGameData e (s\<lparr>effect_due := False\<rparr>))
      else s)"

subsection \<open>GameContext: completeQuest\<close>

definition saveInventoryData :: "env \<Rightarrow> user option \<Rightarrow> item list \<Rightarrow> game \<Rightarrow> outcome" where
  "saveInventoryData e usr data s =
     (case usr of
        None \<Rightarrow> (None, s)
      | Some u \<Rightarrow>
          if setItem_throws e then (Some StorageError, s)
          else (None, s\<lparr>localStorage := (localStorage s)(''inventory_'' @ id_user u \<mapsto> data)\<rparr>))"

text \<open>The reward computation of \<^verbatim>\<open>completeQuest\<close> (the block under
  \<^verbatim>\<open>// Award rewards\<close>): the character handed to \<^verbatim>\<open>updateUser\<close>.\<close>

definition awardRewards :: "character \<Rightarrow> rewards \<Rightarrow> character" where
  "awardRewards c r =
     (let newExp = character.experience c + rewards.experience r;
          newGold = character.gold c + rewards.gold r;
          newLevel = level c;
          newExpToNext = experienceToNext c;
          newSkillPoints = character.skillPoints c + or_else (rewards.skillPoints r) 0;
          newAvailablePoints = availablePoints (stats c);
          levelUp = (newExp \<ge> experienceToNext c);
          newLevel = (if levelUp then newLevel + 1 else newLevel);
          newExpToNext = (if levelUp then newLevel * 100 else newExpToNext);
          newAvailablePoints = (if levelUp then newAvailablePoints + 3 else newAvailablePoints)
      in c\<lparr>character.experience := newExp,
            experienceToNext := newExpToNext,
            level := newLevel,
            character.gold := newGold,
            character.skillPoints := newSkillPoints,
            stats := (stats c)\<lparr>availablePoints := newAvailablePoints\<rparr>\<rparr>)"

text \<open>
  \<^verbatim>\<open>completeQuest(questId)\<close>. The closure's \<^verbatim>\<open>user\<close>, \<^verbatim>\<open>quests\<close> and
  \<^verbatim>\<open>inventory\<close> are those of the state the call starts in. An error thrown by
  \<^verbatim>\<open>questAPI.completeQuest\<close>, \<^verbatim>\<open>updateUser\<close> or \<^verbatim>\<open>saveInventoryData\<close> is rethrown by
  the \<^verbatim>\<open>catch\<close> block, after what has been done so far. The call leaves the
  \<^verbatim>\<open>[user]\<close> effect due when it has replaced the user; \<^const>\<open>runEffect\<close> runs it.
\<close>

definition completeQuest :: "env \<Rightarrow> string \<Rightarrow> game \<Rightarrow> outcome" where
  "completeQuest e questId s =
     (case user s of
        None \<Rightarrow> (None, s)
      | Some u \<Rightarrow>
          (case find (\<lambda>q. id_quest q = questId) (quests s) of
             None \<Rightarrow> (None, s)
           | Some quest \<Rightarrow>
               if isCompleted quest then (None, s)
               else
                 (case questAPI_completeQuest e questId of
                    Inl err \<Rightarrow> (Some err, s)
                  | Inr completedQuest \<Rightarrow>
                      (let s1 = s\<lparr>quests := map (\<lambda>q. if id_quest q = questId then completedQuest else q)
                                                  (quests s)\<rparr>
                       in case updateUser e (awardRewards (character u) (rewards quest)) s1 of
                            (Some err, s2) \<Rightarrow> (Some err, s2)
                          | (None, s2) \<Rightarrow>
                              (case items (rewards quest) of
                                 None \<Rightarrow> (None, s2)
                               | Some its \<Rightarrow>
                                   (let newItems = inventory s @ its
                                    in saveInventoryData e (Some u) newItems
                                         (s2\<lparr>inventory := newItems\<rparr>)))))))"

subsection \<open>GameContext: addItem\<close>

text \<open>The \<^verbatim>\<open>updatedInventory\<close> that \<^verbatim>\<open>addItem\<close> computes.\<close>

definition updatedInventory :: "item list \<Rightarrow> item \<Rightarrow> item list" where
  "updatedInventory items0 it =
     (case findIndex (\<lambda>i. id_item i = id_item it) items0 of
        Some existingItemIndex \<Rightarrow>
          if truthy (quantity it)
          then map (\<lambda>(index, i).
                      if index = existingItemIndex
                      then i\<lparr>quantity := Some (or_else (quantity i) 0 + or_else (quantity it) 1)\<rparr>
                      else i)
                   (enumerate 0 items0)
          else items0 @ [it]
      | None \<Rightarrow> items0 @ [it])"

definition addItem :: "env \<Rightarrow> item \<Rightarrow> game \<Rightarrow> outcome" where
  "addItem e it s =
     (let updated = updatedInventory (inventory s) it
      in saveInventoryData e (user s) updated (s\<lparr>inventory := updated\<rparr>))"

subsection \<open>Combat: data\<close>

text \<open>Modelled from the spec: \<^verbatim>\<open>Monster\<close> and \<^verbatim>\<open>Skill\<close> of \<^verbatim>\<open>src/types\<close>, with the
  fields the combat page reads.\<close>

record monster =
  id_monster :: string
  name :: string
  hp :: int
  attack :: int
  defense :: int
  exp_reward :: int
  gold_reward :: int
  image_url :: "string option"

record skill =
  id_skill :: string
  name :: string
  mana_cost :: int
  damage :: int
  required_class :: string

text \<open>A row of \<^verbatim>\<open>player_unlocked_skills\<close> with its joined skill, which may be null.\<close>

record unlocked_skill =
  user_id :: string
  skill_id :: string
  skill :: "skill option"

datatype menu = Main_menu | Skills_menu

text \<open>The state variables of the \<^verbatim>\<open>Combat\<close> component. The initial values are those
  of its \<^verbatim>\<open>useState\<close> calls.\<close>

record combat =
  currentMonster :: "monster option"
  playerHP :: int
  playerMP :: int
  monsterHP :: int
  combatLog :: "string list"
  menuState :: menu
  playerSkills :: "skill list"
  isLoading :: bool

definition initialCombat :: combat where
  "initialCombat =
     \<lparr>currentMonster = None, playerHP = 100, playerMP = 50, monsterHP = 0, combatLog = [],
      menuState = Main_menu, playerSkills = [], isLoading = True\<rparr>"

text \<open>
  A callback handed to \<^verbatim>\<open>setTimeout\<close>. The function \<^verbatim>\<open>monsterAttack\<close> it calls is the
  one of the render in which the handler was created: it reads the \<^verbatim>\<open>user\<close> and the
  state variables of that render, and writes through the setters.
\<close>

datatype callback = MonsterAttack_callback "user option" combat | Navigate_callback string

text \<open>
  The component with its pending timeouts (each callback with the milliseconds left
  until it is due, in the order they were scheduled) and the path navigated to, if any.
  After navigation the component is unmounted and its setters have no effect.
\<close>

record screen =
  state :: combat
  timeouts :: "(callback \<times> nat) list"
  navigated :: "string option"

subsection \<open>Combat: the log\<close>

text \<open>Decimal notation of a number inside a template string.\<close>

fun digits :: "nat \<Rightarrow> string" where
  "digits n =
     (if n < 10 then [''0123456789'' ! n]
      else digits (n div 10) @ [''0123456789'' ! (n mod 10)])"

definition toString :: "int \<Rightarrow> string" where
  "toString i = (if i < 0 then ''-'' @ digits (nat (- i)) else digits (nat i))"

text \<open>\<^verbatim>\<open>setCombatLog(prev => [...prev, message].slice(-10))\<close>\<close>

definition addToCombatLog :: "string \<Rightarrow> combat \<Rightarrow> combat" where
  "addToCombatLog message c =
     c\<lparr>combatLog := (let l = combatLog c @ [message] in drop (length l - 10) l)\<rparr>"

subsection \<open>Combat: set-up\<close>

text \<open>\<^verbatim>\<open>initializeCombat\<close>, given the reply of \<^verbatim>\<open>combatAPI.getRandomMonster\<close>.\<close>

definition initializeCombat :: "store_error + monster \<Rightarrow> user option \<Rightarrow> combat \<Rightarrow> combat" where
  "initializeCombat reply usr c =
     (case reply of
        Inl err \<Rightarrow>
          (addToCombatLog ''Failed to load monster. Please try again.'' (c\<lparr>isLoading := True\<rparr>))
             \<lparr>isLoading := False\<rparr>
      | Inr m \<Rightarrow>
          (let c1 = c\<lparr>isLoading := True, currentMonster := Some m, monsterHP := hp m\<rparr>;
               c2 = (case usr of
                       None \<Rightarrow> c1
                     | Some u \<Rightarrow> c1\<lparr>playerHP := currentHP (vitals (character u)),
                                      playerMP := currentMP (vitals (character u))\<rparr>)
           in (addToCombatLog (''A wild '' @ monster.name m @ '' appears!'') c2)
                \<lparr>isLoading := False\<rparr>))"

text \<open>\<^verbatim>\<open>loadPlayerSkills\<close>, given the reply of \<^verbatim>\<open>combatAPI.getPlayerUnlockedSkills\<close>.\<close>

definition loadPlayerSkills :: "store_error + unlocked_skill list \<Rightarrow> user option \<Rightarrow> combat \<Rightarrow> combat" where
  "loadPlayerSkills reply usr c =
     (case usr of
        None \<Rightarrow> c
      | Some u \<Rightarrow>
          (case reply of
             Inl err \<Rightarrow> c
           | Inr unlockedSkills \<Rightarrow>
               c\<lparr>playerSkills := map the (filter (\<lambda>x. x \<noteq> None) (map skill unlockedSkills))\<rparr>))"

subsection \<open>Combat: damage\<close>

definition playerAttack :: "user \<Rightarrow> int" where
  "playerAttack u = 10 + strength (stats (character u)) * 2"

text \<open>\<^verbatim>\<open>Math.max(1, playerAttack - currentMonster.defense)\<close>\<close>

definition attackDamage :: "user \<Rightarrow> monster \<Rightarrow> int" where
  "attackDamage u m = max 1 (playerAttack u - defense m)"

definition skillDamage :: "skill \<Rightarrow> user \<Rightarrow> rat" where
  "skillDamage sk u =
     (if required_class sk = ''Wizard''
      then of_int (damage sk) + of_int (intelligence (stats (character u)) * 2)
      else if required_class sk = ''Fighter''
      then of_int (damage sk) + of_int (strength (stats (character u))) * (3 / 2)
      else of_int (damage sk))"

text \<open>\<^verbatim>\<open>Math.max(1, Math.floor(skillDamage - currentMonster.defense / 2))\<close>\<close>

definition castDamage :: "skill \<Rightarrow> user \<Rightarrow> monster \<Rightarrow> int" where
  "castDamage sk u m = max 1 \<lfloor>skillDamage sk u - of_int (defense m) / 2\<rfloor>"

text \<open>\<^verbatim>\<open>Math.max(1, currentMonster.attack - (5 + user.character.stats.dexterity))\<close>\<close>

definition counterDamage :: "user \<Rightarrow> monster \<Rightarrow> int" where
  "counterDamage u m = max 1 (attack m - (5 + dexterity (stats (character u))))"

subsection \<open>Combat: the handlers\<close>

definition defeatedLines :: "monster \<Rightarrow> combat \<Rightarrow> combat" where
  "defeatedLines m c =
     addToCombatLog (''You gained '' @ toString (exp_reward m) @ '' EXP and ''
                       @ toString (gold_reward m) @ '' Gold!'')
       (addToCombatLog (monster.name m @ '' is defeated!'') c)"

text \<open>\<^verbatim>\<open>monsterAttack\<close> of the render with user \<open>usr\<close> and state \<open>v\<close>, run on the current
  state \<open>c\<close>.\<close>

definition monsterAttack :: "user option \<Rightarrow> combat \<Rightarrow> combat \<Rightarrow> combat" where
  "monsterAttack usr v c =
     (case currentMonster v of
        None \<Rightarrow> c
      | Some m \<Rightarrow>
          (case usr of
             None \<Rightarrow> c
           | Some u \<Rightarrow>
               (let damage = counterDamage u m;
                    newPlayerHP = max 0 (playerHP v - damage);
                    c1 = addToCombatLog (monster.name m @ '' attacks you for '' @ toString damage
                                            @ '' damage!'')
                           (c\<lparr>playerHP := newPlayerHP\<rparr>)
                in if newPlayerHP \<le> 0 then addToCombatLog ''You have been defeated!'' c1 else c1)))"

text \<open>\<^verbatim>\<open>handleAttack\<close>, clicked on the current render.\<close>

definition handleAttack :: "user option \<Rightarrow> screen \<Rightarrow> screen" where
  "handleAttack usr sc =
     (case currentMonster (state sc) of
        None \<Rightarrow> sc
      | Some m \<Rightarrow>
          (case usr of
             None \<Rightarrow> sc
           | Some u \<Rightarrow>
               (let damage = attackDamage u m;
                    newMonsterHP = max 0 (monsterHP (state sc) - damage);
                    c1 = addToCombatLog (''You attack '' @ monster.name m @ '' for '' @ toString damage
                                            @ '' damage!'')
                           ((state sc)\<lparr>monsterHP := newMonsterHP\<rparr>)
                in if newMonsterHP \<le> 0 then sc\<lparr>state := defeatedLines m c1\<rparr>
                   else sc\<lparr>state := c1,
                            timeouts := timeouts sc @ [(MonsterAttack_callback usr (state sc), 1000)]\<rparr>)))"

text \<open>\<^verbatim>\<open>handleSkillUse(skill)\<close>, clicked on the current render.\<close>

definition handleSkillUse :: "user option \<Rightarrow> skill \<Rightarrow> screen \<Rightarrow> screen" where
  "handleSkillUse usr sk sc =
     (case currentMonster (state sc) of
        None \<Rightarrow> sc
      | Some m \<Rightarrow>
          (case usr of
             None \<Rightarrow> sc
           | Some u \<Rightarrow>
               if playerMP (state sc) < mana_cost sk then sc
               else
                 (let damage = castDamage sk u m;
                      newMonsterHP = max 0 (monsterHP (state sc) - damage);
                      newPlayerMP = playerMP (state sc) - mana_cost sk;
                      c1 = (addToCombatLog (''You cast '' @ skill.name sk @ '' for '' @ toString damage
                                              @ '' damage!'')
                              ((state sc)\<lparr>monsterHP := newMonsterHP, playerMP := newPlayerMP\<rparr>))
                             \<lparr>menuState := Main_menu\<rparr>
                  in if newMonsterHP \<le> 0 then sc\<lparr>state := defeatedLines m c1\<rparr>
                     else sc\<lparr>state := c1,
                              timeouts := timeouts sc @ [(MonsterAttack_callback usr (state sc), 1000)]\<rparr>)))"

text \<open>\<^verbatim>\<open>handleRun\<close>\<close>

definition handleRun :: "screen \<Rightarrow> screen" where
  "handleRun sc =
     sc\<lparr>state := addToCombatLog ''You fled from battle!'' (state sc),
        timeouts := timeouts sc @ [(Navigate_callback ''/adventure'', 1500)]\<rparr>"

text \<open>A timeout expires: its callback runs.\<close>

fun runCallback :: "callback \<Rightarrow> screen \<Rightarrow> screen" where
  "runCallback (MonsterAttack_callback usr v) sc =
     (if navigated sc = None then sc\<lparr>state := monsterAttack usr v (state sc)\<rparr> else sc)"
| "runCallback (Navigate_callback path) sc = sc\<lparr>navigated := Some path\<rparr>"

text \<open>The pending timeout that is due first: the one with the least time left, and
  among those with the same time left the one scheduled first.\<close>

fun earliest :: "(callback \<times> nat) list \<Rightarrow> (callback \<times> nat) option" where
  "earliest [] = None"
| "earliest (t # ts) =
     (case earliest ts of
        None \<Rightarrow> Some t
      | Some t' \<Rightarrow> if snd t \<le> snd t' then Some t else Some t')"

text \<open>Time passes until the next timeout is due, and its callback runs: it leaves the
  list, and the others have that much less time left.\<close>

definition expire :: "screen \<Rightarrow> screen" where
  "expire sc =
     (case earliest (timeouts sc) of
        None \<Rightarrow> sc
      | Some (cb, left) \<Rightarrow>
          runCallback cb
            (sc\<lparr>timeouts := map (\<lambda>(cb', left'). (cb', left' - left))
                                (remove1 (cb, left) (timeouts sc))\<rparr>))"

text \<open>
  \<open>d\<close> milliseconds pass without a click: the timeouts due within \<open>d\<close> expire in
  their order, and the others have \<open>d\<close> less left. No callback schedules a timeout, so
  there are at most as many expiries as there are pending timeouts.
\<close>

fun elapse_upto :: "nat \<Rightarrow> nat \<Rightarrow> screen \<Rightarrow> screen" where
  "elapse_upto 0 d sc = sc\<lparr>timeouts := map (\<lambda>(cb, left). (cb, left - d)) (timeouts sc)\<rparr>"
| "elapse_upto (Suc n) d sc =
     (case earliest (timeouts sc) of
        None \<Rightarrow> sc
      | Some (cb, left) \<Rightarrow>
          if left \<le> d then elapse_upto n (d - left) (expire sc)
          else sc\<lparr>timeouts := map (\<lambda>(cb, left). (cb, left - d)) (timeouts sc)\<rparr>)"

definition elapse :: "nat \<Rightarrow> screen \<Rightarrow> screen" where
  "elapse d sc = elapse_upto (length (timeouts sc)) d sc"

subsection \<open>Combat: what the render shows\<close>

definition isPlayerDefeated :: "combat \<Rightarrow> bool" where
  "isPlayerDefeated c = (playerHP c \<le> 0)"

definition isMonsterDefeated :: "combat \<Rightarrow> bool" where
  "isMonsterDefeated c = (monsterHP c \<le> 0)"

definition isBattleOver :: "combat \<Rightarrow> bool" where
  "isBattleOver c = (isPlayerDefeated c \<or> isMonsterDefeated c)"

text \<open>The skills that get a button in the skills menu
  (\<^verbatim>\<open>playerSkills.slice(0, 4)\<close>), and whether a skill's button can be clicked.\<close>

definition skillButtons :: "combat \<Rightarrow> skill list" where
  "skillButtons c =
     (if isBattleOver c \<or> menuState c = Main_menu then [] else take 4 (playerSkills c))"

definition skillButtonEnabled :: "combat \<Rightarrow> skill \<Rightarrow> bool" where
  "skillButtonEnabled c sk = (sk \<in> set (skillButtons c) \<and> \<not> playerMP c < mana_cost sk)"

subsection \<open>Sample data\<close>

text \<open>A freshly registered character (the column defaults of the \<^verbatim>\<open>characters\<close>
  table), a quest worth five levels of experience that grants a sword, and a monster.\<close>

definition hero :: user where
  "hero =
     \<lparr>id_user = ''u1'', email = ''hero@example.org'', displayName = ''hero'',
      registrationDate = ''2025-06-24'',
      character =
        \<lparr>id_character = ''c1'', name = [], level = 1, experience = 0, experienceToNext = 100,
         class_character = ''Novice'',
         appearance = \<lparr>face = 0, hairstyle = 0, hairColor = ''#8B4513''\<rparr>,
         stats = \<lparr>strength = 5, dexterity = 5, intelligence = 5, availablePoints = 0\<rparr>,
         vitals = \<lparr>currentHP = 100, maxHP = 100, currentMP = 50, maxMP = 50\<rparr>,
         gold = 100, skillPoints = 0\<rparr>\<rparr>"

definition sword :: item where
  "sword = \<lparr>id_item = ''sword'', name = ''Iron Sword'', value_item = 99, quantity = None,
            isEquipped = None\<rparr>"

definition potion :: "int option \<Rightarrow> item" where
  "potion q = \<lparr>id_item = ''potion'', name = ''Potion'', value_item = 10, quantity = q,
               isEquipped = None\<rparr>"

definition thesis_quest :: quest where
  "thesis_quest =
     \<lparr>id_quest = ''q1'', title = ''Write the thesis'', description = [], type_quest = ''main'',
      difficulty = ''epic'',
      rewards = \<lparr>experience = 500, gold = 50, skillPoints = Some 2, items = Some [sword]\<rparr>,
      isCompleted = False, isActive = True, progress = 0, maxProgress = 1,
      createdAt = ''2025-06-24'', completedAt = None, dueDate = None\<rparr>"

definition thesis_done :: quest where
  "thesis_done =
     thesis_quest\<lparr>isCompleted := True, progress := 1, completedAt := Some ''2025-06-25''\<rparr>"

definition store_up :: env where
  "store_up = \<lparr>update_quests = (\<lambda>questId. Inr thesis_done),
               select_quests = (\<lambda>userId. Inr [thesis_done]),
               updateCharacter_throws = False, setItem_throws = False\<rparr>"


definition session :: game where
  "session = \<lparr>user = Some hero, quests = [thesis_quest], inventory = [],
              characters_row = character hero, localStorage = Map.empty, effect_due = False\<rparr>"

definition session_done :: game where
  "session_done = session\<lparr>quests := [thesis_done]\<rparr>"

definition slime :: monster where
  "slime = \<lparr>id_monster = ''m1'', name = ''Slime'', hp = 30, attack = 12, defense = 3,
            exp_reward = 10, gold_reward = 5, image_url = None\<rparr>"


definition fireball :: skill where
  "fireball = \<lparr>id_skill = ''s1'', name = ''Fireball'', mana_cost = 10, damage = 15,
               required_class = ''Wizard''\<rparr>"

text \<open>The encounter with the slime, right after set-up; no skill is unlocked.\<close>

definition arena :: screen where
  "arena = \<lparr>state = initializeCombat (Inr slime) (Some hero) initialCombat, timeouts = [],
            navigated = None\<rparr>"

text \<open>The same encounter after one attack: the slime has 13 HP left and its
  counter-attack is pending.\<close>

definition arena_hit :: screen where
  "arena_hit = handleAttack (Some hero) arena"

definition meteor :: skill where
  "meteor = \<lparr>id_skill = ''s2'', name = ''Meteor'', mana_cost = 60, damage = 80,
             required_class = ''Wizard''\<rparr>"

text \<open>The session with three potions in the inventory.\<close>

definition pouch :: game where
  "pouch = session\<lparr>inventory := [potion (Some 3)]\<rparr>"



section \<open>Properties\<close>

subsection \<open>Shared facts\<close>

text \<open>The reward block computes what the specification says of a completion.\<close>

lemma awardRewards_fields:
  "character.experience (awardRewards c r) = character.experience c + rewards.experience r"
  "character.gold (awardRewards c r) = character.gold c + rewards.gold r"
  "character.skillPoints (awardRewards c r) =
     character.skillPoints c + or_else (rewards.skillPoints r) 0"
  "level (awardRewards c r) =
     (if character.experience c + rewards.experience r \<ge> experienceToNext c
      then level c + 1 else level c)"
  "experienceToNext (awardRewards c r) =
     (if character.experience c + rewards.experience r \<ge> experienceToNext c
      then (level c + 1) * 100 else experienceToNext c)"
  "availablePoints (stats (awardRewards c r)) =
     (if character.experience c + rewards.experience r \<ge> experienceToNext c
      then availablePoints (stats c) + 3 else availablePoints (stats c))"
  by (simp_all add: awardRewards_def Let_def)

text \<open>The quest write throws on every call, whatever the store would answer.\<close>

lemma questAPI_completeQuest_throws: "questAPI_completeQuest e questId = Inl TypeError"
  by (simp add: questAPI_completeQuest_def supabase_raw_def)

text \<open>So \<open>completeQuest\<close> never gets to the reward block: it returns at a guard or
  rethrows the error of the quest write, and the state is the one it started in.\<close>

lemma completeQuest_outcome:
  "completeQuest e questId s =
     (case user s of
        None \<Rightarrow> (None, s)
      | Some u \<Rightarrow>
          (case find (\<lambda>q. id_quest q = questId) (quests s) of
             None \<Rightarrow> (None, s)
           | Some quest \<Rightarrow> if isCompleted quest then (None, s) else (Some TypeError, s)))"
  by (simp add: completeQuest_def questAPI_completeQuest_throws split: option.splits)

lemma runEffect_not_due: "\<not> effect_due s \<Longrightarrow> runEffect e s = s"
  by (simp add: runEffect_def)

lemma session_facts:
  "user session = Some hero"
  "find (\<lambda>q. id_quest q = ''q1'') (quests session) = Some thesis_quest"
  "\<not> isCompleted thesis_quest"
  "\<not> effect_due session"
  by (simp_all add: session_def thesis_quest_def)

lemma session_completeQuest:
  "completeQuest e ''q1'' session = (Some TypeError, session)"
  by (simp add: completeQuest_outcome session_facts)

subsection \<open>Quest completion\<close>

text \<open>
  C1 (the code at the failing input). The hero has 0 experience and needs 100; the
  sample quest is not completed and is worth 500. The specification has the hero level
  up. In the code the quest write throws a \<open>TypeError\<close>, \<open>completeQuest\<close> rethrows it
  before the reward block, and after the call and the effects the hero is the same: level
  1, threshold 100, no stat points, 0 experience.
\<close>

theorem completeQuest_no_level_up:
  "user session = Some hero \<and>
   find (\<lambda>q. id_quest q = ''q1'') (quests session) = Some thesis_quest \<and>
   \<not> isCompleted thesis_quest \<and>
   experienceToNext (character hero)
     \<le> character.experience (character hero) + rewards.experience (rewards thesis_quest) \<and>
   level (awardRewards (character hero) (rewards thesis_quest)) = 2 \<and>
   fst (completeQuest store_up ''q1'' session) = Some TypeError \<and>
   user (runEffect store_up (snd (completeQuest store_up ''q1'' session))) = Some hero \<and>
   level (character hero) = 1 \<and> experienceToNext (character hero) = 100 \<and>
   availablePoints (stats (character hero)) = 0 \<and> character.experience (character hero) = 0"
proof -
  have after: "runEffect store_up (snd (completeQuest store_up ''q1'' session)) = session"
    by (simp add: session_completeQuest session_facts runEffect_not_due)
  have hero: "level (character hero) = 1" "experienceToNext (character hero) = 100"
    "availablePoints (stats (character hero)) = 0" "character.experience (character hero) = 0"
    by (simp_all add: hero_def)
  have quest: "rewards.experience (rewards thesis_quest) = 500"
    by (simp add: thesis_quest_def)
  from after hero quest show ?thesis
    by (simp add: session_completeQuest session_facts awardRewards_fields)
qed

text \<open>
  C2 (the code at the failing input). The sample quest is worth 50 gold, 500 experience
  and 2 skill points. The quest write throws, and after the call and the effects the
  hero's gold, experience and skill points are still 100, 0 and 0, in the local user
  and in the stored row.
\<close>

theorem completeQuest_no_rewards:
  "rewards.gold (rewards thesis_quest) = 50 \<and>
   rewards.experience (rewards thesis_quest) = 500 \<and>
   rewards.skillPoints (rewards thesis_quest) = Some 2 \<and>
   isActive thesis_quest \<and> \<not> isCompleted thesis_quest \<and>
   fst (completeQuest store_up ''q1'' session) = Some TypeError \<and>
   user (runEffect store_up (snd (completeQuest store_up ''q1'' session))) = Some hero \<and>
   characters_row (runEffect store_up (snd (completeQuest store_up ''q1'' session))) =
     character hero \<and>
   character.gold (character hero) = 100 \<and>
   character.experience (character hero) = 0 \<and>
   character.skillPoints (character hero) = 0"
proof -
  have after: "runEffect store_up (snd (completeQuest store_up ''q1'' session)) = session"
    by (simp add: session_completeQuest session_facts runEffect_not_due)
  have row: "characters_row session = character hero"
    by (simp add: session_def)
  have quest: "rewards.gold (rewards thesis_quest) = 50"
    "rewards.experience (rewards thesis_quest) = 500"
    "rewards.skillPoints (rewards thesis_quest) = Some 2"
    "isActive thesis_quest"
    by (simp_all add: thesis_quest_def)
  have hero: "character.gold (character hero) = 100"
    "character.experience (character hero) = 0"
    "character.skillPoints (character hero) = 0"
    by (simp_all add: hero_def)
  from after row quest hero show ?thesis
    by (simp add: session_completeQuest session_facts)
qed

text \<open>
  C3. Completing a quest whose \<open>isCompleted\<close> flag is already set changes nothing: the
  call returns without an error and without a store call, and the quests, the user with
  the character, the inventory, the stored row and the stored inventory are as before.
\<close>

theorem completeQuest_completed_noop:
  assumes "find (\<lambda>q. id_quest q = questId) (quests s) = Some quest"
    and "isCompleted quest"
  shows "completeQuest e questId s = (None, s)"
  using assms by (simp add: completeQuest_def split: option.splits)

theorem completeQuest_completed_noop_witness:
  "find (\<lambda>q. id_quest q = ''q1'') (quests session_done) = Some thesis_done \<and>
   isCompleted thesis_done \<and>
   completeQuest store_up ''q1'' session_done = (None, session_done)"
proof -
  have found: "find (\<lambda>q. id_quest q = ''q1'') (quests session_done) = Some thesis_done"
    by (simp add: session_done_def session_def thesis_done_def thesis_quest_def)
  have completed: "isCompleted thesis_done"
    by (simp add: thesis_done_def)
  from completeQuest_completed_noop [OF found completed] found completed show ?thesis
    by simp
qed



subsection \<open>Inventory\<close>

text \<open>\<^const>\<open>findIndex\<close> returns the first index that passes the test.\<close>

lemma findIndex_Some:
  "findIndex P xs = Some k \<Longrightarrow> k < length xs \<and> P (xs ! k) \<and> (\<forall>j<k. \<not> P (xs ! j))"
proof (induction xs arbitrary: k)
  case Nil
  then show ?case by simp
next
  case (Cons x xs)
  show ?case
  proof (cases "P x")
    case True
    with Cons.prems show ?thesis by simp
  next
    case False
    with Cons.prems obtain k' where k': "findIndex P xs = Some k'" "k = Suc k'"
      by (auto split: option.splits)
    from Cons.IH [OF k'(1)] False k'(2) show ?thesis
      by (auto simp add: nth_Cons split: nat.splits)
  qed
qed

lemma findIndex_None: "findIndex P xs = None \<longleftrightarrow> (\<forall>x\<in>set xs. \<not> P x)"
  by (induction xs) (auto split: option.splits)

text \<open>Mapping over the indexed list and changing the element at one index is a list
  update.\<close>

lemma map_enumerate_update:
  "map (\<lambda>(index, i). if index = k then f i else i) (enumerate n xs) =
     (if n \<le> k \<and> k < n + length xs then xs[k - n := f (xs ! (k - n))] else xs)"
proof (induction xs arbitrary: n)
  case Nil
  then show ?case by simp
next
  case (Cons x xs)
  consider "k = n" | "n < k" | "k < n"
    by linarith
  then show ?case
  proof cases
    case 1
    with Cons.IH [of "Suc n"] show ?thesis by simp
  next
    case 2
    then have "k - n = Suc (k - Suc n)"
      by simp
    with 2 Cons.IH [of "Suc n"] show ?thesis
      by auto
  next
    case 3
    with Cons.IH [of "Suc n"] show ?thesis by simp
  qed
qed

lemma updatedInventory_eq:
  "updatedInventory items0 it =
     (case findIndex (\<lambda>i. id_item i = id_item it) items0 of
        None \<Rightarrow> items0 @ [it]
      | Some k \<Rightarrow>
          (case quantity it of
             None \<Rightarrow> items0 @ [it]
           | Some q \<Rightarrow>
               if q = 0 then items0 @ [it]
               else items0[k := (items0 ! k)
                      \<lparr>quantity := Some ((case quantity (items0 ! k) of None \<Rightarrow> 0 | Some n \<Rightarrow> n) + q)\<rparr>]))"
proof (cases "findIndex (\<lambda>i. id_item i = id_item it) items0")
  case None
  then show ?thesis by (simp add: updatedInventory_def)
next
  case (Some k)
  then have "k < length items0"
    by (simp add: findIndex_Some)
  with Some show ?thesis
    by (auto simp add: updatedInventory_def truthy_def or_else_def map_enumerate_update
          split: option.splits)
qed

lemma addItem_inventory: "inventory (snd (addItem e it s)) = updatedInventory (inventory s) it"
  by (simp add: addItem_def saveInventoryData_def Let_def split: option.splits)

text \<open>
  C9 (as stated, refuted). An incoming item that carries the quantity 0 and whose id is
  already in the inventory is not merged: it is appended, and the entry count grows
  from one to two.
\<close>

theorem addItem_zero_quantity_appended:
  "findIndex (\<lambda>i. id_item i = id_item (potion (Some 0))) (inventory pouch) = Some 0 \<and>
   quantity (potion (Some 0)) = Some 0 \<and>
   inventory pouch = [potion (Some 3)] \<and>
   inventory (snd (addItem store_up (potion (Some 0)) pouch)) = [potion (Some 3), potion (Some 0)] \<and>
   length (inventory (snd (addItem store_up (potion (Some 0)) pouch))) \<noteq> length (inventory pouch)"
  by (simp add: addItem_def saveInventoryData_def updatedInventory_def truthy_def Let_def
        pouch_def session_def potion_def store_up_def)

text \<open>
  C9 (amended). \<open>addItem\<close> merges when an entry with the same id exists and the incoming
  item carries a quantity other than 0: the entry count is unchanged and the incoming
  quantity is added to the quantity of the first entry with that id (an absent quantity
  there counting as 0). In every other case (no entry with that id, no quantity, or the
  quantity 0) the item is appended as a new entry.
\<close>

theorem addItem_merge_or_append:
  "inventory (snd (addItem e it s)) =
     (case findIndex (\<lambda>i. id_item i = id_item it) (inventory s) of
        None \<Rightarrow> inventory s @ [it]
      | Some k \<Rightarrow>
          (case quantity it of
             None \<Rightarrow> inventory s @ [it]
           | Some q \<Rightarrow>
               if q = 0 then inventory s @ [it]
               else (inventory s)[k := (inventory s ! k)
                      \<lparr>quantity := Some ((case quantity (inventory s ! k) of None \<Rightarrow> 0 | Some n \<Rightarrow> n)
                                          + q)\<rparr>])) \<and>
   length (inventory (snd (addItem e it s))) =
     (if findIndex (\<lambda>i. id_item i = id_item it) (inventory s) = None \<or>
         quantity it = None \<or> quantity it = Some 0
      then length (inventory s) + 1 else length (inventory s))"
  by (auto simp add: addItem_inventory updatedInventory_eq split: option.splits)

text \<open>The example of the specification: three potions and two potions make one entry
  of five; an item without a quantity and an item with a new id are appended.\<close>

theorem addItem_merge_or_append_witness:
  "inventory (snd (addItem store_up (potion (Some 2)) pouch)) = [potion (Some 5)] \<and>
   inventory (snd (addItem store_up (potion None) pouch)) = [potion (Some 3), potion None] \<and>
   inventory (snd (addItem store_up sword pouch)) = [potion (Some 3), sword]"
  using addItem_merge_or_append [of store_up "potion (Some 2)" pouch]
    addItem_merge_or_append [of store_up "potion None" pouch]
    addItem_merge_or_append [of store_up sword pouch]
  by (simp add: pouch_def session_def potion_def sword_def)

subsection \<open>Combat\<close>

lemma addToCombatLog_fields:
  "currentMonster (addToCombatLog msg c) = currentMonster c"
  "playerHP (addToCombatLog msg c) = playerHP c"
  "playerMP (addToCombatLog msg c) = playerMP c"
  "monsterHP (addToCombatLog msg c) = monsterHP c"
  "menuState (addToCombatLog msg c) = menuState c"
  "playerSkills (addToCombatLog msg c) = playerSkills c"
  by (simp_all add: addToCombatLog_def)

lemma last_addToCombatLog: "last (combatLog (addToCombatLog msg c)) = msg"
  by (simp add: addToCombatLog_def Let_def)

lemma defeatedLines_fields:
  "playerHP (defeatedLines m c) = playerHP c"
  "playerMP (defeatedLines m c) = playerMP c"
  "monsterHP (defeatedLines m c) = monsterHP c"
  by (simp_all add: defeatedLines_def addToCombatLog_fields)

text \<open>What an attack, a cast and a counter-attack do once their guards have passed.\<close>

lemma handleAttack_alive:
  assumes "currentMonster (state sc) = Some m"
  shows "state (handleAttack (Some u) sc) =
           (let c1 = addToCombatLog (''You attack '' @ monster.name m @ '' for ''
                                        @ toString (attackDamage u m) @ '' damage!'')
                       ((state sc)\<lparr>monsterHP := max 0 (monsterHP (state sc) - attackDamage u m)\<rparr>)
            in if monsterHP (state sc) - attackDamage u m \<le> 0 then defeatedLines m c1 else c1)"
    and "timeouts (handleAttack (Some u) sc) =
           (if monsterHP (state sc) - attackDamage u m \<le> 0 then timeouts sc
            else timeouts sc @ [(MonsterAttack_callback (Some u) (state sc), 1000)])"
  using assms by (auto simp add: handleAttack_def Let_def)

lemma handleSkillUse_cast:
  assumes "currentMonster (state sc) = Some m" and "\<not> playerMP (state sc) < mana_cost sk"
  shows "state (handleSkillUse (Some u) sk sc) =
           (let c1 = (addToCombatLog (''You cast '' @ skill.name sk @ '' for ''
                                        @ toString (castDamage sk u m) @ '' damage!'')
                       ((state sc)\<lparr>monsterHP := max 0 (monsterHP (state sc) - castDamage sk u m),
                                   playerMP := playerMP (state sc) - mana_cost sk\<rparr>))
                       \<lparr>menuState := Main_menu\<rparr>
            in if monsterHP (state sc) - castDamage sk u m \<le> 0 then defeatedLines m c1 else c1)"
    and "timeouts (handleSkillUse (Some u) sk sc) =
           (if monsterHP (state sc) - castDamage sk u m \<le> 0 then timeouts sc
            else timeouts sc @ [(MonsterAttack_callback (Some u) (state sc), 1000)])"
  using assms by (auto simp add: handleSkillUse_def Let_def)

lemma monsterAttack_hit:
  assumes "currentMonster v = Some m"
  shows "playerHP (monsterAttack (Some u) v c) = max 0 (playerHP v - counterDamage u m)"
    and "monsterHP (monsterAttack (Some u) v c) = monsterHP c"
  using assms by (simp_all add: monsterAttack_def Let_def addToCombatLog_fields)

lemma set_map_the_filter: "set (map the (filter (\<lambda>x. x \<noteq> None) xs)) = {s. Some s \<in> set xs}"
  by (induction xs) auto

text \<open>An expiry takes one timeout off the list, so \<^const>\<open>elapse\<close> has an expiry left for
  every timeout that can be due.\<close>

lemma earliest_None: "earliest ts = None \<longleftrightarrow> ts = []"
  by (induction ts) (auto split: option.splits)

lemma earliest_mem: "earliest ts = Some t \<Longrightarrow> t \<in> set ts"
  by (induction ts arbitrary: t) (auto split: option.splits if_splits)

lemma earliest_least: "earliest ts = Some t \<Longrightarrow> t' \<in> set ts \<Longrightarrow> snd t \<le> snd t'"
  by (induction ts arbitrary: t) (auto simp add: earliest_None split: option.splits if_splits)

lemma timeouts_runCallback: "timeouts (runCallback cb sc) = timeouts sc"
  by (cases cb) simp_all

lemma expire_length: "length (timeouts (expire sc)) = length (timeouts sc) - 1"
  by (auto simp add: expire_def timeouts_runCallback length_remove1 earliest_None
        dest: earliest_mem split: option.splits)

text \<open>
  Timeouts expire by the time they are due, not by the order of the clicks. RUN and
  then BATTLE at once: the counter-attack (1000 ms) is due before the navigation
  (1500 ms) and takes 2 HP. RUN, and BATTLE 600 ms later: the navigation is due first,
  and the counter-attack finds the page gone.
\<close>

lemma expire_by_due_time:
  "playerHP (state (expire (handleAttack (Some hero) (handleRun arena)))) = 98 \<and>
   navigated (expire (handleAttack (Some hero) (handleRun arena))) = None \<and>
   navigated (expire (handleAttack (Some hero) (elapse 600 (handleRun arena)))) =
     Some ''/adventure'' \<and>
   playerHP (state (expire (expire (handleAttack (Some hero) (elapse 600 (handleRun arena))))))
     = 100"
  by code_simp

text \<open>The sample encounter, evaluated.\<close>

lemma arena_eval:
  "currentMonster (state arena) = Some slime"
  "monsterHP (state arena) = 30"
  "playerHP (state arena) = 100"
  "playerMP (state arena) = 50"
  "playerSkills (state arena) = []"
  "timeouts arena = []"
  by (simp_all add: arena_def initializeCombat_def initialCombat_def addToCombatLog_def Let_def
        hero_def slime_def)

lemma arena_hit_eval:
  "currentMonster (state arena_hit) = Some slime"
  "monsterHP (state arena_hit) = 13"
  "playerHP (state arena_hit) = 100"
  "playerMP (state arena_hit) = 50"
  "timeouts arena_hit = [(MonsterAttack_callback (Some hero) (state arena), 1000)]"
  "navigated arena_hit = None"
  "menuState (state arena_hit) = Main_menu"
  by (simp_all add: arena_hit_def arena_def handleAttack_def initializeCombat_def initialCombat_def
        addToCombatLog_def attackDamage_def playerAttack_def hero_def slime_def Let_def)

lemma sample_damage:
  "attackDamage hero slime = 17" "castDamage fireball hero slime = 23" "counterDamage hero slime = 2"
  "mana_cost fireball = 10" "exp_reward slime = 10" "gold_reward slime = 5"
  by code_simp+

text \<open>
  C5. When an attack, or a cast the player has the mana for, brings the monster's HP to
  0 or below, the monster is shown as defeated, the last log line announces the rewards,
  no counter-attack is scheduled and the player's HP is untouched by the action. The
  counter-attack is scheduled exactly when the monster is still alive after the damage.
\<close>

theorem victory_no_counter:
  assumes "currentMonster (state sc) = Some m"
  shows "(let sc' = handleAttack (Some u) sc
          in if monsterHP (state sc) - attackDamage u m \<le> 0
             then isMonsterDefeated (state sc') \<and> timeouts sc' = timeouts sc \<and>
                  playerHP (state sc') = playerHP (state sc) \<and>
                  last (combatLog (state sc')) =
                    ''You gained '' @ toString (exp_reward m) @ '' EXP and ''
                      @ toString (gold_reward m) @ '' Gold!''
             else \<not> isMonsterDefeated (state sc') \<and>
                  playerHP (state sc') = playerHP (state sc) \<and>
                  timeouts sc' = timeouts sc @ [(MonsterAttack_callback (Some u) (state sc), 1000)]) \<and>
         (\<not> playerMP (state sc) < mana_cost sk \<longrightarrow>
            (let sc' = handleSkillUse (Some u) sk sc
             in if monsterHP (state sc) - castDamage sk u m \<le> 0
                then isMonsterDefeated (state sc') \<and> timeouts sc' = timeouts sc \<and>
                     playerHP (state sc') = playerHP (state sc) \<and>
                     last (combatLog (state sc')) =
                       ''You gained '' @ toString (exp_reward m) @ '' EXP and ''
                         @ toString (gold_reward m) @ '' Gold!''
                else \<not> isMonsterDefeated (state sc') \<and>
                     playerHP (state sc') = playerHP (state sc) \<and>
                     timeouts sc' = timeouts sc @ [(MonsterAttack_callback (Some u) (state sc), 1000)]))"
  using handleAttack_alive [OF assms, of u] handleSkillUse_cast [OF assms, of sk u]
  by (simp add: Let_def isMonsterDefeated_def defeatedLines_fields addToCombatLog_fields
        defeatedLines_def last_addToCombatLog)

text \<open>The slime with 13 HP left falls to a second attack (17 damage) and to a fireball
  (23 damage); neither adds a counter-attack to the one already pending.\<close>

theorem victory_no_counter_witness:
  "currentMonster (state arena_hit) = Some slime \<and>
   \<not> playerMP (state arena_hit) < mana_cost fireball \<and>
   isMonsterDefeated (state (handleAttack (Some hero) arena_hit)) \<and>
   timeouts (handleAttack (Some hero) arena_hit) = timeouts arena_hit \<and>
   playerHP (state (handleAttack (Some hero) arena_hit)) = 100 \<and>
   isMonsterDefeated (state (handleSkillUse (Some hero) fireball arena_hit)) \<and>
   timeouts (handleSkillUse (Some hero) fireball arena_hit) = timeouts arena_hit \<and>
   playerHP (state (handleSkillUse (Some hero) fireball arena_hit)) = 100"
  using victory_no_counter [OF arena_hit_eval(1), of hero fireball]
  by (simp add: arena_hit_eval sample_damage Let_def)

text \<open>Every damage value is at least 1: the raw value of the formula when that is
  positive, and 1 when the raw value is 0 or negative.\<close>

lemma damage_floor:
  "1 \<le> attackDamage u m \<and> 1 \<le> castDamage sk u m \<and> 1 \<le> counterDamage u m \<and>
   attackDamage u m =
     (if 10 + strength (stats (character u)) * 2 - defense m \<le> 0 then 1
      else 10 + strength (stats (character u)) * 2 - defense m) \<and>
   castDamage sk u m =
     (if \<lfloor>skillDamage sk u - of_int (defense m) / 2\<rfloor> \<le> 0 then 1
      else \<lfloor>skillDamage sk u - of_int (defense m) / 2\<rfloor>) \<and>
   counterDamage u m =
     (if attack m - (5 + dexterity (stats (character u))) \<le> 0 then 1
      else attack m - (5 + dexterity (stats (character u))))"
proof -
  have floor_one: "1 \<le> max 1 x" "max 1 x = (if x \<le> 0 then 1 else x)" for x :: int
    by simp_all
  show ?thesis
    unfolding attackDamage_def castDamage_def counterDamage_def playerAttack_def
    by (simp only: floor_one) simp
qed

text \<open>An attack, and a cast the player has the mana for, take at least 1 HP from a
  monster that has HP left; a counter-attack writes at least 1 HP less than the positive
  HP its render had.\<close>

lemma damage_applied:
  assumes "currentMonster (state sc) = Some m"
  shows "0 < monsterHP (state sc) \<Longrightarrow>
           monsterHP (state (handleAttack (Some u) sc)) \<le> monsterHP (state sc) - 1"
    and "0 < monsterHP (state sc) \<Longrightarrow> \<not> playerMP (state sc) < mana_cost sk \<Longrightarrow>
           monsterHP (state (handleSkillUse (Some u) sk sc)) \<le> monsterHP (state sc) - 1"
    and "0 < playerHP (state sc) \<Longrightarrow>
           playerHP (monsterAttack (Some u) (state sc) c) \<le> playerHP (state sc) - 1"
proof -
  have floors: "1 \<le> attackDamage u m" "1 \<le> castDamage sk u m" "1 \<le> counterDamage u m"
    by (simp_all add: attackDamage_def castDamage_def counterDamage_def)
  show "0 < monsterHP (state sc) \<Longrightarrow>
          monsterHP (state (handleAttack (Some u) sc)) \<le> monsterHP (state sc) - 1"
    using handleAttack_alive(1) [OF assms, of u] floors(1)
    by (simp add: Let_def defeatedLines_fields addToCombatLog_fields)
  show "0 < monsterHP (state sc) \<Longrightarrow> \<not> playerMP (state sc) < mana_cost sk \<Longrightarrow>
          monsterHP (state (handleSkillUse (Some u) sk sc)) \<le> monsterHP (state sc) - 1"
    using handleSkillUse_cast(1) [OF assms, of sk u] floors(2)
    by (simp add: Let_def defeatedLines_fields addToCombatLog_fields)
  show "0 < playerHP (state sc) \<Longrightarrow>
          playerHP (monsterAttack (Some u) (state sc) c) \<le> playerHP (state sc) - 1"
    using monsterAttack_hit(1) [OF assms, of u c] floors(3)
    by simp
qed


text \<open>
  C7 (as stated, refuted). The handler does not check that the skill is unlocked: in
  the sample encounter no skill is unlocked, yet casting the fireball costs 10 MP and
  takes 23 HP from the slime.
\<close>

theorem skill_not_unlocked_is_cast:
  "fireball \<notin> set (playerSkills (state arena)) \<and>
   monsterHP (state arena) = 30 \<and> playerMP (state arena) = 50 \<and>
   monsterHP (state (handleSkillUse (Some hero) fireball arena)) = 7 \<and>
   playerMP (state (handleSkillUse (Some hero) fireball arena)) = 40 \<and>
   handleSkillUse (Some hero) fireball arena \<noteq> arena"
proof -
  have mp: "\<not> playerMP (state arena) < mana_cost fireball"
    by (simp add: arena_eval sample_damage)
  have hp: "monsterHP (state (handleSkillUse (Some hero) fireball arena)) = 7"
    and mana: "playerMP (state (handleSkillUse (Some hero) fireball arena)) = 40"
    using handleSkillUse_cast(1) [OF arena_eval(1) mp, of hero]
    by (simp_all add: Let_def arena_eval sample_damage defeatedLines_fields addToCombatLog_fields)
  from mana have "handleSkillUse (Some hero) fireball arena \<noteq> arena"
    using arena_eval(4) by auto
  with hp mana show ?thesis
    by (simp add: arena_eval)
qed

text \<open>
  C7 (amended). With a monster and a user loaded, \<open>handleSkillUse\<close> checks the mana
  only: when \<open>playerMP < skill.mana_cost\<close> the action is a no-op on the whole screen, and
  otherwise the skill is cast (the mana cost is deducted and the monster's HP reduced),
  whether or not the skill is among the player's skills. That a skill is unlocked is
  ensured where the buttons are made: every skill with a button is one of
  \<open>playerSkills\<close>, and \<open>loadPlayerSkills\<close> fills \<open>playerSkills\<close> with the skills of the
  player's unlocked-skill rows.
\<close>

theorem handleSkillUse_validation:
  "(currentMonster (state sc) = None \<or> usr = None \<or> playerMP (state sc) < mana_cost sk
      \<longrightarrow> handleSkillUse usr sk sc = sc) \<and>
   (currentMonster (state sc) = Some m \<and> \<not> playerMP (state sc) < mana_cost sk
      \<longrightarrow> playerMP (state (handleSkillUse (Some u) sk sc)) = playerMP (state sc) - mana_cost sk \<and>
          monsterHP (state (handleSkillUse (Some u) sk sc)) =
            max 0 (monsterHP (state sc) - castDamage sk u m)) \<and>
   set (skillButtons (state sc)) \<subseteq> set (playerSkills (state sc)) \<and>
   set (playerSkills (loadPlayerSkills (Inr unlockedSkills) (Some u) c)) =
     {s. Some s \<in> set (map skill unlockedSkills)}"
proof -
  have rejected: "handleSkillUse usr sk sc = sc"
    if "currentMonster (state sc) = None \<or> usr = None \<or> playerMP (state sc) < mana_cost sk"
    using that by (auto simp add: handleSkillUse_def split: option.splits)
  have cast: "playerMP (state (handleSkillUse (Some u) sk sc)) = playerMP (state sc) - mana_cost sk \<and>
              monsterHP (state (handleSkillUse (Some u) sk sc)) =
                max 0 (monsterHP (state sc) - castDamage sk u m)"
    if "currentMonster (state sc) = Some m" and "\<not> playerMP (state sc) < mana_cost sk"
    using handleSkillUse_cast(1) [OF that, of u]
    by (simp add: Let_def defeatedLines_fields addToCombatLog_fields)
  have "playerSkills (loadPlayerSkills (Inr unlockedSkills) (Some u) c) =
          map the (filter (\<lambda>x. x \<noteq> None) (map skill unlockedSkills))"
    by (simp add: loadPlayerSkills_def)
  then have loaded: "set (playerSkills (loadPlayerSkills (Inr unlockedSkills) (Some u) c)) =
                       {s. Some s \<in> set (map skill unlockedSkills)}"
    by (simp only: set_map_the_filter)
  have buttons: "set (skillButtons (state sc)) \<subseteq> set (playerSkills (state sc))"
    by (auto simp add: skillButtons_def dest: in_set_takeD)
  from rejected cast loaded buttons show ?thesis
    by blast
qed

text \<open>With 50 MP the meteor (60 MP) is rejected and the fireball (10 MP) is cast.\<close>

theorem handleSkillUse_validation_witness:
  "currentMonster (state arena) = Some slime \<and>
   playerMP (state arena) < mana_cost meteor \<and>
   \<not> playerMP (state arena) < mana_cost fireball \<and>
   handleSkillUse (Some hero) meteor arena = arena \<and>
   playerMP (state (handleSkillUse (Some hero) fireball arena)) = 40 \<and>
   monsterHP (state (handleSkillUse (Some hero) fireball arena)) = 7"
proof -
  have costs: "mana_cost meteor = 60"
    by (simp add: meteor_def)
  from handleSkillUse_validation [of arena "Some hero" meteor slime hero]
    handleSkillUse_validation [of arena "Some hero" fireball slime hero]
  show ?thesis
    by (simp add: arena_eval sample_damage costs)
qed

text \<open>
  C8 (the code at the failing input). The player attacks twice within the delay of the
  first counter-attack; after the first attack the battle is not over and the main menu
  is shown, so the second click is possible. The second attack defeats the slime and schedules nothing, but
  the counter-attack of the first attack is still pending; when it expires it takes 2 HP
  from the player although the monster is defeated. The same happens when the player
  runs within the delay: the counter-attack (due after 1000 ms) expires before the
  navigation (due 1500 ms after the later click) and damages the player who has fled.
\<close>

theorem counter_attack_after_victory:
  "\<not> isBattleOver (state arena_hit) \<and> menuState (state arena_hit) = Main_menu \<and>
   isMonsterDefeated (state (handleAttack (Some hero) arena_hit)) \<and>
   timeouts (handleAttack (Some hero) arena_hit) =
     [(MonsterAttack_callback (Some hero) (state arena), 1000)] \<and>
   playerHP (state (handleAttack (Some hero) arena_hit)) = 100 \<and>
   playerHP (state (expire (handleAttack (Some hero) arena_hit))) = 98 \<and>
   isMonsterDefeated (state (expire (handleAttack (Some hero) arena_hit))) \<and>
   playerHP (state (handleRun arena_hit)) = 100 \<and>
   playerHP (state (expire (handleRun arena_hit))) = 98"
proof -
  let ?won = "handleAttack (Some hero) arena_hit"
  have won: "monsterHP (state ?won) = 0" "playerHP (state ?won) = 100"
    "timeouts ?won = [(MonsterAttack_callback (Some hero) (state arena), 1000)]"
    "navigated ?won = None"
    using handleAttack_alive [OF arena_hit_eval(1), of hero]
    by (simp_all add: Let_def arena_hit_eval sample_damage defeatedLines_fields
          addToCombatLog_fields handleAttack_def)
  have fired: "playerHP (state (expire ?won)) = 98" "monsterHP (state (expire ?won)) = 0"
    using monsterAttack_hit [OF arena_eval(1), of hero "state ?won"]
    by (simp_all add: expire_def won arena_eval sample_damage)
  have fled: "playerHP (state (handleRun arena_hit)) = 100"
    "playerHP (state (expire (handleRun arena_hit))) = 98"
    using monsterAttack_hit [OF arena_eval(1), of hero
        "addToCombatLog ''You fled from battle!'' (state arena_hit)"]
    by (simp_all add: handleRun_def expire_def arena_hit_eval arena_eval sample_damage
          addToCombatLog_fields)
  from won fired fled show ?thesis
    by (simp add: isBattleOver_def isPlayerDefeated_def isMonsterDefeated_def arena_hit_eval)
qed

text \<open>
  C10. Every damage application clamps the HP at zero: after an attack, and after a
  cast the player has the mana for, the monster's HP is the larger of 0 and the old HP
  minus the damage, and after a counter-attack the player's HP is the larger of 0 and
  the HP the callback read minus the damage. None of them is ever negative.
\<close>

theorem hp_clamped_at_zero:
  assumes "currentMonster (state sc) = Some m"
  shows "monsterHP (state (handleAttack (Some u) sc)) =
           max 0 (monsterHP (state sc) - attackDamage u m) \<and>
         0 \<le> monsterHP (state (handleAttack (Some u) sc)) \<and>
         (\<not> playerMP (state sc) < mana_cost sk \<longrightarrow>
            monsterHP (state (handleSkillUse (Some u) sk sc)) =
              max 0 (monsterHP (state sc) - castDamage sk u m) \<and>
            0 \<le> monsterHP (state (handleSkillUse (Some u) sk sc))) \<and>
         playerHP (monsterAttack (Some u) (state sc) c) =
           max 0 (playerHP (state sc) - counterDamage u m) \<and>
         0 \<le> playerHP (monsterAttack (Some u) (state sc) c)"
  using handleAttack_alive(1) [OF assms, of u] handleSkillUse_cast(1) [OF assms, of sk u]
    monsterAttack_hit(1) [OF assms, of u c]
  by (simp add: Let_def defeatedLines_fields addToCombatLog_fields)

text \<open>A damage of 17 or 23 on the 13 HP the slime has left gives 0, not a negative
  number.\<close>

theorem hp_clamped_at_zero_witness:
  "currentMonster (state arena_hit) = Some slime \<and>
   \<not> playerMP (state arena_hit) < mana_cost fireball \<and>
   monsterHP (state arena_hit) = 13 \<and> attackDamage hero slime = 17 \<and>
   castDamage fireball hero slime = 23 \<and>
   monsterHP (state (handleAttack (Some hero) arena_hit)) = 0 \<and>
   monsterHP (state (handleSkillUse (Some hero) fireball arena_hit)) = 0 \<and>
   playerHP (monsterAttack (Some hero) (state arena_hit) (state arena_hit)) = 98"
  using hp_clamped_at_zero [OF arena_hit_eval(1), of hero fireball "state arena_hit"]
  by (simp add: arena_hit_eval sample_damage)

end
